theory Spec2Isabelle
  imports Complex_Main "HOL-Library.AList"
begin

section \<open>Python values, strings and the runtime\<close>

text \<open>
  A Python \<open>str\<close> is a sequence of code points, so a data string is a list of code
  points: slicing and the digit scan of \<open>re\<close> count code points. A string literal of
  the program is written \<open>lit ''...''\<close>. The keys of the dictionaries that the
  program builds itself (\<open>'id'\<close>, \<open>'title'\<close>, ...) are literals of the source and
  are kept as \<open>string\<close>.
\<close>

type_synonym pystr = "nat list"

definition lit :: "string \<Rightarrow> pystr" where
  "lit s = map of_char s"

text \<open>
  The values that a listing, a record or a search parameter holds. \<open>PNum\<close> is a float
  (its value as a rational), \<open>PObj\<close> an object of the client library named by its
  source expression, such as \<open>lbc.AdType.OFFER\<close>.
\<close>

datatype pyval =
    PNone
  | PBool bool
  | PInt int
  | PNum rat
  | PStr pystr
  | PList "pyval list"
  | PObj string

datatype exn =
    TypeError pystr
  | ValueError pystr
  | OSError pystr
  | ClientError pystr

text \<open>\<open>str(e)\<close>: the message of the exception.\<close>

fun exn_str :: "exn \<Rightarrow> pystr" where
  "exn_str (TypeError m) = m"
| "exn_str (ValueError m) = m"
| "exn_str (OSError m) = m"
| "exn_str (ClientError m) = m"

text \<open>
  One entry of the dictionary \<open>attributes\<close> of \<open>_process_ad\<close>:
  \<open>{'value': ..., 'label': ...}\<close>.
\<close>

record attr_entry =
  entry_value :: pystr
  entry_label :: pystr

type_synonym attr_dict = "(pystr \<times> attr_entry) list"

text \<open>A record of the scraper: a dictionary with literal keys, in insertion order.\<close>

type_synonym ad_record = "(string \<times> pyval) list"

text \<open>
  What the program takes from the interpreter and from its libraries, as parameters:
  \<^item> \<open>decimal\<close>: the decimal digits of Unicode, each with its value; \<open>\d\<close> of \<open>re\<close>
    and \<open>int\<close> use the same table;
  \<^item> \<open>int_max_str_digits\<close>: the limit of \<open>int\<close> on the number of digits of its argument
    (\<open>sys.get_int_max_str_digits()\<close>, 4300 by default; \<open>0\<close> when there is none, as in
    the interpreters that precede the limit);
  \<^item> \<open>json_dumps\<close>: \<open>json.dumps(attributes, ensure_ascii=False)\<close>;
  \<^item> \<open>to_csv\<close>: the text that \<open>pd.DataFrame(rows).to_csv(index=False)\<close> writes.
\<close>

record runtime =
  decimal :: "nat \<Rightarrow> nat option"
  int_max_str_digits :: nat
  json_dumps :: "attr_dict \<Rightarrow> pystr"
  to_csv :: "ad_record list \<Rightarrow> pystr"

definition is_decimal :: "runtime \<Rightarrow> nat \<Rightarrow> bool" where
  "is_decimal rt c = (decimal rt c \<noteq> None)"

definition digit_value :: "runtime \<Rightarrow> nat \<Rightarrow> int" where
  "digit_value rt c = (case decimal rt c of None \<Rightarrow> 0 | Some d \<Rightarrow> int d)"

text \<open>
  \<open>re.search(r'\d+', s)\<close>: the leftmost match, as long as it can be, so the first
  maximal run of decimal digits; \<open>None\<close> when \<open>s\<close> has no digit.
\<close>

definition re_search_digits :: "runtime \<Rightarrow> pystr \<Rightarrow> pystr option" where
  "re_search_digits rt s =
     (case takeWhile (is_decimal rt) (dropWhile (\<lambda>c. \<not> is_decimal rt c) s) of
        [] \<Rightarrow> None
      | c # cs \<Rightarrow> Some (c # cs))"

text \<open>
  \<open>int(m)\<close> on a run of decimal digits: \<open>None\<close> stands for the \<open>ValueError\<close> that
  \<open>int\<close> raises when the run is longer than the limit.
\<close>

definition py_int :: "runtime \<Rightarrow> pystr \<Rightarrow> int option" where
  "py_int rt m =
     (if 0 < int_max_str_digits rt \<and> int_max_str_digits rt < length m then None
      else Some (foldl (\<lambda>a c. 10 * a + digit_value rt c) 0 m))"

section \<open>The field extractors\<close>

definition surface_keys :: "pystr list" where
  "surface_keys = [lit ''square'', lit ''surface'', lit ''area'']"

definition type_keys :: "pystr list" where
  "type_keys = [lit ''real_estate_type'', lit ''property_type'', lit ''type'']"

definition energy_keys :: "pystr list" where
  "energy_keys = [lit ''energy_rate'', lit ''dpe'', lit ''energy_class'']"

definition ges_keys :: "pystr list" where
  "ges_keys = [lit ''ges'', lit ''greenhouse_gas'', lit ''co2'']"

definition furnished_keys :: "pystr list" where
  "furnished_keys = [lit ''furnished'', lit ''meuble'', lit ''furnished_type'']"

text \<open>
  The loop of \<open>_extract_surface\<close> over \<open>surface_keys\<close>. A key that is present returns
  only when its value has a digit and \<open>int\<close> accepts the run; otherwise the loop goes on
  to the next key (no match: the \<open>if match\<close> falls through; \<open>int\<close> raises:
  \<open>except: continue\<close>).
\<close>

fun surface_loop :: "runtime \<Rightarrow> attr_dict \<Rightarrow> pystr list \<Rightarrow> int option" where
  "surface_loop rt attributes [] = None"
| "surface_loop rt attributes (key # keys) =
     (case map_of attributes key of
        None \<Rightarrow> surface_loop rt attributes keys
      | Some entry \<Rightarrow>
          (case re_search_digits rt (entry_value entry) of
             None \<Rightarrow> surface_loop rt attributes keys
           | Some m \<Rightarrow>
               (case py_int rt m of
                  None \<Rightarrow> surface_loop rt attributes keys
                | Some n \<Rightarrow> Some n)))"

definition extract_surface :: "runtime \<Rightarrow> attr_dict \<Rightarrow> int option" where
  "extract_surface rt attributes = surface_loop rt attributes surface_keys"

text \<open>
  The loop that \<open>_extract_real_estate_type\<close>, \<open>_extract_energy_class\<close>,
  \<open>_extract_ges\<close> and \<open>_extract_furnished_status\<close> each run over their own keys.
\<close>

fun label_loop :: "attr_dict \<Rightarrow> pystr list \<Rightarrow> pystr" where
  "label_loop attributes [] = []"
| "label_loop attributes (key # keys) =
     (case map_of attributes key of
        None \<Rightarrow> label_loop attributes keys
      | Some entry \<Rightarrow> entry_label entry)"

definition extract_real_estate_type :: "attr_dict \<Rightarrow> pystr" where
  "extract_real_estate_type attributes = label_loop attributes type_keys"

definition extract_energy_class :: "attr_dict \<Rightarrow> pystr" where
  "extract_energy_class attributes = label_loop attributes energy_keys"

definition extract_ges :: "attr_dict \<Rightarrow> pystr" where
  "extract_ges attributes = label_loop attributes ges_keys"

definition extract_furnished_status :: "attr_dict \<Rightarrow> pystr" where
  "extract_furnished_status attributes = label_loop attributes furnished_keys"

section \<open>The raw listing and its normalisation\<close>

text \<open>
  The listing object of the client library. A field that the program copies as it is
  holds any value. A field that the program tests before it reads it is an option, and
  \<open>None\<close> is Python's \<open>None\<close>; for a field read through \<open>getattr\<close> with a default or
  guarded by \<open>hasattr\<close>, \<open>None\<close> is the object without that attribute.
\<close>

record attribute =
  attr_key :: "pystr option"
  attr_value :: "pystr option"
  attr_value_label :: "pystr option"

record location =
  city :: pyval
  zipcode :: pyval
  department_name :: pyval
  region_name :: pyval
  lat :: pyval
  lng :: pyval

record pro_profile =
  online_store_name :: "pyval option"
  siret :: "pyval option"
  siren :: "pyval option"
  activity_sector :: "pyval option"
  website_url :: "pyval option"

text \<open>
  \<open>is_pro\<close>: \<open>None\<close> when the user object has no such attribute. \<open>pro\<close>: \<open>None\<close> when
  the attribute is missing or holds \<open>None\<close>; the program treats both alike.
\<close>

record user =
  user_name :: pyval
  is_pro :: "bool option"
  pro :: "pro_profile option"

record raw_listing =
  ad_id :: pyval
  subject :: pyval
  body :: "pystr option"
  price :: "rat option"
  url :: pyval
  first_publication_date :: pyval
  expiration_date :: pyval
  category_name :: pyval
  status :: pyval
  favorites :: "pyval option"
  location :: "location option"
  user :: "user option"
  has_phone :: pyval
  images :: "pystr list option"
  attributes :: "attribute list option"

text \<open>Truth value of an optional string: \<open>None\<close> and \<open>''\<close> are false.\<close>

fun truthy :: "pystr option \<Rightarrow> bool" where
  "truthy None = False"
| "truthy (Some s) = (s \<noteq> [])"

text \<open>
  One turn of the loop that fills \<open>attributes\<close>: assigning to a key that the dictionary
  has replaces its entry where it stands, a new key goes to the end.
\<close>

definition add_attribute :: "attr_dict \<Rightarrow> attribute \<Rightarrow> attr_dict" where
  "add_attribute d attr =
     (case (attr_key attr, attr_value attr) of
        (Some k, Some v) \<Rightarrow>
          if k \<noteq> [] \<and> v \<noteq> [] then
            AList.update k
              \<lparr>entry_value = v,
               entry_label = (if truthy (attr_value_label attr)
                              then (case attr_value_label attr of Some l \<Rightarrow> l | None \<Rightarrow> v)
                              else v)\<rparr> d
          else d
      | _ \<Rightarrow> d)"

definition attributes_dict :: "attribute list \<Rightarrow> attr_dict" where
  "attributes_dict attrs = foldl add_attribute [] attrs"

definition opt_num :: "rat option \<Rightarrow> pyval" where
  "opt_num p = (case p of None \<Rightarrow> PNone | Some x \<Rightarrow> PNum x)"

definition opt_int :: "int option \<Rightarrow> pyval" where
  "opt_int p = (case p of None \<Rightarrow> PNone | Some x \<Rightarrow> PInt x)"

text \<open>\<open>getattr(o, name, default)\<close> and \<open>o.name if hasattr(o, name) else default\<close>.\<close>

definition getattr_default :: "pyval option \<Rightarrow> pyval \<Rightarrow> pyval" where
  "getattr_default a d = (case a of None \<Rightarrow> d | Some v \<Rightarrow> v)"

text \<open>\<open>ad.location.f if ad.location else d\<close>.\<close>

definition location_field :: "raw_listing \<Rightarrow> (location \<Rightarrow> pyval) \<Rightarrow> pyval \<Rightarrow> pyval" where
  "location_field ad f d = (case location ad of None \<Rightarrow> d | Some l \<Rightarrow> f l)"

definition seller_type :: "raw_listing \<Rightarrow> pystr" where
  "seller_type ad =
     (case user ad of
        None \<Rightarrow> lit ''particulier''
      | Some u \<Rightarrow> (if (case is_pro u of None \<Rightarrow> False | Some b \<Rightarrow> b)
                   then lit ''pro'' else lit ''particulier''))"

definition images_count :: "raw_listing \<Rightarrow> int" where
  "images_count ad =
     (case images ad of None \<Rightarrow> 0 | Some [] \<Rightarrow> 0 | Some (i # is) \<Rightarrow> int (length (i # is)))"

definition first_image_url :: "raw_listing \<Rightarrow> pystr" where
  "first_image_url ad =
     (case images ad of None \<Rightarrow> [] | Some [] \<Rightarrow> [] | Some (i # is) \<Rightarrow> i)"

text \<open>\<open>ad.body[:500] if ad.body else ''\<close>.\<close>

definition description :: "raw_listing \<Rightarrow> pystr" where
  "description ad = (if truthy (body ad)
                     then (case body ad of Some b \<Rightarrow> take 500 b | None \<Rightarrow> [])
                     else [])"

text \<open>The dictionary literal of \<open>_process_ad\<close>, key by key in the order of the source.\<close>

definition base_record :: "runtime \<Rightarrow> pystr \<Rightarrow> raw_listing \<Rightarrow> attr_dict \<Rightarrow> ad_record" where
  "base_record rt now ad attrs =
     [(''id'', ad_id ad),
      (''title'', subject ad),
      (''description'', PStr (description ad)),
      (''price'', opt_num (price ad)),
      (''url'', url ad),
      (''publication_date'', first_publication_date ad),
      (''expiration_date'', expiration_date ad),
      (''category'', category_name ad),
      (''status'', status ad),
      (''favorites'', getattr_default (favorites ad) (PInt 0)),
      (''city'', location_field ad city (PStr [])),
      (''zipcode'', location_field ad zipcode (PStr [])),
      (''department'', location_field ad department_name (PStr [])),
      (''region'', location_field ad region_name (PStr [])),
      (''latitude'', location_field ad lat PNone),
      (''longitude'', location_field ad lng PNone),
      (''seller_type'', PStr (seller_type ad)),
      (''seller_name'', (case user ad of None \<Rightarrow> PStr [] | Some u \<Rightarrow> user_name u)),
      (''has_phone'', has_phone ad),
      (''images_count'', PInt (images_count ad)),
      (''first_image_url'', PStr (first_image_url ad)),
      (''surface'', opt_int (extract_surface rt attrs)),
      (''real_estate_type'', PStr (extract_real_estate_type attrs)),
      (''energy_class'', PStr (extract_energy_class attrs)),
      (''ges'', PStr (extract_ges attrs)),
      (''furnished'', PStr (extract_furnished_status attrs)),
      (''raw_attributes'', PStr (json_dumps rt attrs)),
      (''scraped_at'', PStr now)]"

text \<open>The argument of \<open>ad_data.update\<close> for a user with a professional profile.\<close>

definition pro_fields :: "pro_profile \<Rightarrow> ad_record" where
  "pro_fields p =
     [(''pro_store_name'', getattr_default (online_store_name p) (PStr [])),
      (''pro_siret'', getattr_default (siret p) (PStr [])),
      (''pro_siren'', getattr_default (siren p) (PStr [])),
      (''pro_activity_sector'', getattr_default (activity_sector p) (PStr [])),
      (''pro_website'', getattr_default (website_url p) (PStr []))]"

text \<open>\<open>d.update(e)\<close>: the entries of \<open>e\<close> are assigned one after the other.\<close>

definition dict_update :: "('k \<times> 'v) list \<Rightarrow> ('k \<times> 'v) list \<Rightarrow> ('k \<times> 'v) list" where
  "dict_update d e = foldl (\<lambda>acc (k, v). AList.update k v acc) d e"

definition not_iterable_message :: pystr where
  "not_iterable_message = [39] @ lit ''NoneType'' @ [39] @ lit '' object is not iterable''"

text \<open>
  The body of the \<open>try\<close> of \<open>_process_ad\<close>. Iterating over \<open>ad.attributes\<close> is its first
  statement and raises \<open>TypeError\<close> when the collection is \<open>None\<close>; nothing else raises on
  a listing of this type.
\<close>

definition build_ad_data :: "runtime \<Rightarrow> pystr \<Rightarrow> raw_listing \<Rightarrow> exn + ad_record" where
  "build_ad_data rt now ad =
     (case attributes ad of
        None \<Rightarrow> Inl (TypeError not_iterable_message)
      | Some attrs \<Rightarrow>
          (let ad_data = base_record rt now ad (attributes_dict attrs)
           in case user ad of
                None \<Rightarrow> Inr ad_data
              | Some u \<Rightarrow>
                  (case pro u of
                     None \<Rightarrow> Inr ad_data
                   | Some p \<Rightarrow> Inr (dict_update ad_data (pro_fields p)))))"

text \<open>\<open>_process_ad\<close>: the \<open>except\<close> turns any exception into the two-key record.\<close>

definition process_ad :: "runtime \<Rightarrow> pystr \<Rightarrow> raw_listing \<Rightarrow> ad_record" where
  "process_ad rt now ad =
     (case build_ad_data rt now ad of
        Inr ad_data \<Rightarrow> ad_data
      | Inl e \<Rightarrow> [(''id'', ad_id ad), (''error'', PStr (exn_str e))])"

section \<open>The pagination collector\<close>

text \<open>
  The arguments of \<open>search_bureaux_commerces\<close>. \<open>kwargs\<close> are the keyword arguments
  that match none of the named parameters; \<open>search_params.update(kwargs)\<close> assigns them
  last, so a key of \<open>kwargs\<close> replaces the parameter of the same name.
\<close>

type_synonym params = "(string \<times> pyval) list"

record search_args =
  search_text :: pyval
  locations :: pyval
  price_range :: "int list option"
  surface_range :: "int list option"
  sort_order :: pyval
  owner_type :: pyval
  max_pages :: int
  ads_per_page :: int
  search_in_title_only :: bool
  kwargs :: params

record page_result =
  result_ads :: "raw_listing list"
  result_max_pages :: int

text \<open>
  \<open>self.client.search\<close>: the client has a state of its own, which a call may change,
  and a call returns a page or raises.
\<close>

type_synonym 'c client = "'c \<Rightarrow> params \<Rightarrow> (exn + page_result) \<times> 'c"

datatype event = Search params | Sleep rat

record scraper =
  delay :: rat
  scraped_data :: "ad_record list"

text \<open>
  \<open>if price_range: search_params['price'] = price_range\<close>, and the same for the
  surface: \<open>None\<close> and the empty list are false.
\<close>

definition with_range :: "string \<Rightarrow> int list option \<Rightarrow> params \<Rightarrow> params" where
  "with_range k r ps =
     (case r of
        None \<Rightarrow> ps
      | Some [] \<Rightarrow> ps
      | Some (x # xs) \<Rightarrow> AList.update k (PList (map PInt (x # xs))) ps)"

definition search_params :: "search_args \<Rightarrow> int \<Rightarrow> params" where
  "search_params args page =
     dict_update
       (with_range ''square'' (surface_range args)
          (with_range ''price'' (price_range args)
             [(''text'', search_text args),
              (''category'', PObj ''lbc.Category.IMMOBILIER_BUREAUX_ET_COMMERCES''),
              (''locations'', locations args),
              (''page'', PInt page),
              (''limit'', PInt (ads_per_page args)),
              (''sort'', sort_order args),
              (''ad_type'', PObj ''lbc.AdType.OFFER''),
              (''owner_type'', owner_type args),
              (''search_in_title_only'', PBool (search_in_title_only args))]))
       (kwargs args)"

text \<open>
  The \<open>for\<close> loop over the listings of a page. \<open>clock n\<close> is what
  \<open>datetime.now().isoformat()\<close> returns while the record at position \<open>n\<close> of the run is
  built.
\<close>

fun process_page ::
  "runtime \<Rightarrow> (nat \<Rightarrow> pystr) \<Rightarrow> ad_record list \<Rightarrow> raw_listing list \<Rightarrow> ad_record list" where
  "process_page rt clock all_ads [] = all_ads"
| "process_page rt clock all_ads (ad # rest) =
     process_page rt clock (all_ads @ [process_ad rt (clock (length all_ads)) ad]) rest"

text \<open>
  The \<open>while\<close> loop. Its state is the page index, the records gathered, the client's
  state and the trace of the calls to \<open>search\<close> and \<open>sleep\<close>. An exception of the client
  leaves the loop at once, with the trace and without the records.
\<close>

function scrape_loop ::
  "runtime \<Rightarrow> (nat \<Rightarrow> pystr) \<Rightarrow> 'c client \<Rightarrow> search_args \<Rightarrow> rat \<Rightarrow> int \<Rightarrow>
   ad_record list \<Rightarrow> event list \<Rightarrow> 'c \<Rightarrow> (exn + ad_record list) \<times> event list \<times> 'c" where
  "scrape_loop rt clock client args dly page all_ads tr c =
     (if page \<le> max_pages args then
        (case client c (search_params args page) of
           (Inl e, c') \<Rightarrow> (Inl e, tr @ [Search (search_params args page)], c')
         | (Inr result, c') \<Rightarrow>
             if result_ads result = [] then
               (Inr all_ads, tr @ [Search (search_params args page)], c')
             else if page \<ge> result_max_pages result then
               (Inr (process_page rt clock all_ads (result_ads result)),
                tr @ [Search (search_params args page)], c')
             else
               scrape_loop rt clock client args dly (page + 1)
                 (process_page rt clock all_ads (result_ads result))
                 (tr @ [Search (search_params args page)] @ (if dly > 0 then [Sleep dly] else []))
                 c')
      else (Inr all_ads, tr, c))"
  by pat_completeness auto
termination
  by (relation "measure (\<lambda>(rt, clock, client, args, dly, page, all_ads, tr, c).
                  nat (max_pages args + 1 - page))") auto

declare scrape_loop.simps [simp del]

text \<open>
  \<open>search_bureaux_commerces\<close>: \<open>self.scraped_data = all_ads\<close> stands after the \<open>try\<close>,
  so it runs only when the loop ends without an exception; the \<open>except\<close> logs and raises
  again.
\<close>

definition search_bureaux_commerces ::
  "runtime \<Rightarrow> (nat \<Rightarrow> pystr) \<Rightarrow> 'c client \<Rightarrow> search_args \<Rightarrow> scraper \<Rightarrow> 'c \<Rightarrow>
   (exn + ad_record list) \<times> scraper \<times> event list \<times> 'c" where
  "search_bureaux_commerces rt clock client args self c =
     (case scrape_loop rt clock client args (delay self) 1 [] [] c of
        (Inl e, tr, c') \<Rightarrow> (Inl e, self, tr, c')
      | (Inr all_ads, tr, c') \<Rightarrow> (Inr all_ads, self\<lparr>scraped_data := all_ads\<rparr>, tr, c'))"

text \<open>The calls to \<open>search\<close> in a trace, in order, and the page that each asks for.\<close>

fun searches :: "event list \<Rightarrow> params list" where
  "searches [] = []"
| "searches (Search ps # tr) = ps # searches tr"
| "searches (Sleep d # tr) = searches tr"

definition page_of :: "params \<Rightarrow> pyval" where
  "page_of ps = (case map_of ps ''page'' of None \<Rightarrow> PNone | Some v \<Rightarrow> v)"

definition requested_pages :: "event list \<Rightarrow> pyval list" where
  "requested_pages tr = map page_of (searches tr)"

section \<open>The export\<close>

text \<open>
  The file system as the export sees it: the regular files with their text, and the
  directories. Paths are compared as texts. The log file of the program is not part of
  it.
\<close>

record filesystem =
  files :: "pystr \<rightharpoonup> pystr"
  dirs :: "pystr set"

definition slash :: nat where
  "slash = 47"

definition data_dir :: pystr where
  "data_dir = lit ''data''"

definition path_exists :: "filesystem \<Rightarrow> pystr \<Rightarrow> bool" where
  "path_exists fs p = (files fs p \<noteq> None \<or> p \<in> dirs fs)"

definition makedirs :: "filesystem \<Rightarrow> pystr \<Rightarrow> filesystem" where
  "makedirs fs p = fs\<lparr>dirs := insert p (dirs fs)\<rparr>"

text \<open>\<open>os.path.join(a, b)\<close> of \<open>posixpath\<close>, for two components.\<close>

definition path_join :: "pystr \<Rightarrow> pystr \<Rightarrow> pystr" where
  "path_join a b =
     (if take 1 b = [slash] then b
      else if a = [] \<or> last a = slash then a @ b
      else a @ [slash] @ b)"

text \<open>\<open>os.path.dirname(p)\<close> of \<open>posixpath\<close>.\<close>

definition dirname :: "pystr \<Rightarrow> pystr" where
  "dirname p =
     (let head = rev (dropWhile (\<lambda>c. c \<noteq> slash) (rev p))
      in if head \<noteq> [] \<and> \<not> list_all (\<lambda>c. c = slash) head
         then rev (dropWhile (\<lambda>c. c = slash) (rev head))
         else head)"

text \<open>
  Opening \<open>path\<close> for writing and writing \<open>content\<close>: a file that exists is truncated
  and written again; a new file needs its directory (the working directory for a bare
  name); a directory cannot be opened.
\<close>

definition write_file :: "filesystem \<Rightarrow> pystr \<Rightarrow> pystr \<Rightarrow> exn + filesystem" where
  "write_file fs path content =
     (if files fs path \<noteq> None then
        Inr (fs\<lparr>files := (files fs)(path \<mapsto> content)\<rparr>)
      else if path \<in> dirs fs then
        Inl (OSError (lit ''[Errno 21] Is a directory: '' @ [39] @ path @ [39]))
      else if dirname path = [] \<or> dirname path \<in> dirs fs then
        Inr (fs\<lparr>files := (files fs)(path \<mapsto> content)\<rparr>)
      else
        Inl (OSError (lit ''Cannot save file into a non-existent directory: ''
                      @ [39] @ dirname path @ [39])))"

text \<open>The message of the \<open>ValueError\<close> of \<open>save_to_csv\<close>.\<close>

definition no_data_message :: pystr where
  "no_data_message =
     lit ''Aucune donn'' @ [233] @ lit ''e '' @ [224] @ lit '' sauvegarder. Ex'' @ [233]
     @ lit ''cutez d'' @ [39] @ lit ''abord une recherche.''"

text \<open>
  The loop that builds \<open>csv_data\<close>: a record with the key \<open>'error'\<close> is skipped, and
  \<open>pop\<close> removes \<open>'raw_attributes'\<close> unless it was asked for.
\<close>

fun csv_data :: "bool \<Rightarrow> ad_record list \<Rightarrow> ad_record list" where
  "csv_data include_raw_attributes [] = []"
| "csv_data include_raw_attributes (ad # rest) =
     (if map_of ad ''error'' \<noteq> None then csv_data include_raw_attributes rest
      else (if include_raw_attributes then ad else AList.delete ''raw_attributes'' ad)
           # csv_data include_raw_attributes rest)"

text \<open>
  The name of the file: \<open>timestamp\<close> is \<open>datetime.now().strftime("%Y%m%d_%H%M%S")\<close>,
  \<open>city_tag\<close> the parameter \<open>city\<close>.
\<close>

definition export_filename :: "pystr \<Rightarrow> pystr option \<Rightarrow> pystr option \<Rightarrow> pystr" where
  "export_filename timestamp filename city_tag =
     (let name = (if truthy filename
                  then (case filename of Some f \<Rightarrow> f | None \<Rightarrow> [])
                  else lit ''leboncoin_bureaux_commerces_''
                       @ (if truthy city_tag then (case city_tag of Some c \<Rightarrow> c | None \<Rightarrow> [])
                          else lit ''all'')
                       @ lit ''_'' @ timestamp @ lit ''.csv'')
      in if take (length data_dir) name = data_dir then name else path_join data_dir name)"

definition save_to_csv ::
  "runtime \<Rightarrow> pystr \<Rightarrow> pystr option \<Rightarrow> pystr option \<Rightarrow> bool \<Rightarrow> scraper \<Rightarrow> filesystem \<Rightarrow>
   (exn + pystr) \<times> filesystem" where
  "save_to_csv rt timestamp filename city_tag include_raw_attributes self fs =
     (if scraped_data self = [] then (Inl (ValueError no_data_message), fs)
      else
        (let fs1 = (if \<not> path_exists fs data_dir then makedirs fs data_dir else fs);
             name = export_filename timestamp filename city_tag
         in case write_file fs1 name
                   (to_csv rt (csv_data include_raw_attributes (scraped_data self))) of
              Inl e \<Rightarrow> (Inl e, fs1)
            | Inr fs2 \<Rightarrow> (Inr name, fs2)))"

section \<open>The statistics\<close>

text \<open>
  \<open>pd.DataFrame(records)\<close> has one column for every key that some record has; a record
  without the key has \<open>NaN\<close> there, and \<open>None\<close> counts as missing too. Both are \<open>PNone\<close>
  in a column of the model.
\<close>

definition has_column :: "ad_record list \<Rightarrow> string \<Rightarrow> bool" where
  "has_column df k = list_ex (\<lambda>r. map_of r k \<noteq> None) df"

definition column :: "ad_record list \<Rightarrow> string \<Rightarrow> pyval list" where
  "column df k = map (\<lambda>r. case map_of r k of None \<Rightarrow> PNone | Some v \<Rightarrow> v) df"

definition present :: "pyval list \<Rightarrow> pyval list" where
  "present col = filter (\<lambda>v. v \<noteq> PNone) col"

text \<open>The numbers of a column; the price of a record is a float or \<open>None\<close>.\<close>

fun numbers :: "pyval list \<Rightarrow> rat list" where
  "numbers [] = []"
| "numbers (PNum x # vs) = x # numbers vs"
| "numbers (PInt i # vs) = of_int i # numbers vs"
| "numbers (v # vs) = numbers vs"

datatype stat = NaN | Num rat

text \<open>
  The reductions of pandas skip the missing values, and give \<open>NaN\<close> when no value is
  left. \<open>mean\<close> and \<open>median\<close> are computed in floating point, so the function
  that combines the values that are present is a parameter; \<open>min\<close> and \<open>max\<close> pick a
  value.
\<close>

record float_ops =
  float_mean :: "rat list \<Rightarrow> rat"
  float_median :: "rat list \<Rightarrow> rat"

definition reduce :: "(rat list \<Rightarrow> rat) \<Rightarrow> pyval list \<Rightarrow> stat" where
  "reduce f col = (case numbers col of [] \<Rightarrow> NaN | x # xs \<Rightarrow> Num (f (x # xs)))"

definition list_min :: "rat list \<Rightarrow> rat" where
  "list_min xs = fold min (tl xs) (hd xs)"

definition list_max :: "rat list \<Rightarrow> rat" where
  "list_max xs = fold max (tl xs) (hd xs)"

text \<open>\<open>value_counts().to_dict()\<close>: every value that is present, with its count.\<close>

definition value_counts :: "pyval list \<Rightarrow> (pyval \<times> nat) list" where
  "value_counts col = map (\<lambda>v. (v, count_list (present col) v)) (remdups (present col))"

definition nunique :: "pyval list \<Rightarrow> nat" where
  "nunique col = length (remdups (present col))"

record price_statistics =
  stat_mean :: stat
  stat_median :: stat
  stat_min :: stat
  stat_max :: stat

text \<open>
  The result of \<open>get_statistics\<close>, without \<open>'top_cities'\<close>; \<open>seller_types\<close> is a
  dictionary, the order of its entries is not modelled.
\<close>

record statistics =
  total_ads :: nat
  unique_cities :: nat
  price_stats :: price_statistics
  seller_types :: "(pyval \<times> nat) list"

text \<open>\<open>get_statistics\<close>: \<open>None\<close> is the empty dictionary that it returns for no data.\<close>

definition get_statistics :: "float_ops \<Rightarrow> scraper \<Rightarrow> statistics option" where
  "get_statistics ops self =
     (if scraped_data self = [] then None
      else
        (let df = scraped_data self
         in Some
              \<lparr>total_ads = length df,
               unique_cities = (if has_column df ''city'' then nunique (column df ''city'') else 0),
               price_stats =
                 \<lparr>stat_mean = (if has_column df ''price''
                               then reduce (float_mean ops) (column df ''price'') else Num 0),
                  stat_median = (if has_column df ''price''
                                 then reduce (float_median ops) (column df ''price'') else Num 0),
                  stat_min = (if has_column df ''price''
                              then reduce list_min (column df ''price'') else Num 0),
                  stat_max = (if has_column df ''price''
                              then reduce list_max (column df ''price'') else Num 0)\<rparr>,
               seller_types = (if has_column df ''seller_type''
                               then value_counts (column df ''seller_type'') else [])\<rparr>))"

section \<open>Notions used in the statements\<close>

text \<open>
  The integer that one key gives to the surface: none when the key is missing, when its
  value has no decimal digit, or when \<open>int\<close> refuses the first run of digits.
\<close>

definition surface_of :: "runtime \<Rightarrow> attr_dict \<Rightarrow> pystr \<Rightarrow> int option" where
  "surface_of rt attrs key =
     (case map_of attrs key of
        None \<Rightarrow> None
      | Some entry \<Rightarrow>
          (case re_search_digits rt (entry_value entry) of
             None \<Rightarrow> None
           | Some m \<Rightarrow> py_int rt m))"

text \<open>The label that one key gives: the empty string when the key is missing.\<close>

definition label_of :: "attr_dict \<Rightarrow> pystr \<Rightarrow> pystr" where
  "label_of attrs key = (case map_of attrs key of None \<Rightarrow> [] | Some entry \<Rightarrow> entry_label entry)"

definition has_key :: "attr_dict \<Rightarrow> pystr \<Rightarrow> bool" where
  "has_key attrs key = (map_of attrs key \<noteq> None)"


definition pro_keys :: "string list" where
  "pro_keys = [''pro_store_name'', ''pro_siret'', ''pro_siren'', ''pro_activity_sector'',
               ''pro_website'']"


text \<open>
  The records of a run: one for each listing, built at its own time. The prices that
  the statistics see are the prices of the listings that were normalised without an
  error and have a price, in the order of the run.
\<close>

definition records_of :: "runtime \<Rightarrow> (pystr \<times> raw_listing) list \<Rightarrow> ad_record list" where
  "records_of rt xs = map (\<lambda>(now, ad). process_ad rt now ad) xs"

definition normalised :: "pystr \<times> raw_listing \<Rightarrow> bool" where
  "normalised x = (attributes (snd x) \<noteq> None)"

definition present_prices :: "(pystr \<times> raw_listing) list \<Rightarrow> rat list" where
  "present_prices xs =
     concat (map (\<lambda>x. if normalised x
                        then (case price (snd x) of None \<Rightarrow> [] | Some p \<Rightarrow> [p])
                        else []) xs)"

text \<open>The sum of the counts of the seller types.\<close>

definition seller_total :: "statistics \<Rightarrow> nat" where
  "seller_total st = sum_list (map snd (seller_types st))"

definition all_stats :: "stat \<Rightarrow> price_statistics" where
  "all_stats v = \<lparr>stat_mean = v, stat_median = v, stat_min = v, stat_max = v\<rparr>"

section \<open>Concrete inputs\<close>

text \<open>
  A runtime to evaluate the definitions on: the decimal digits are the ASCII ones, which
  is the Unicode table on every string without a digit of another script; the renderings
  of \<open>json\<close> and of \<open>pandas\<close> are stand-ins: the keys of the dictionary, and one line
  for each row.
\<close>

definition ascii_decimal :: "nat \<Rightarrow> nat option" where
  "ascii_decimal c = (if 48 \<le> c \<and> c \<le> 57 then Some (c - 48) else None)"

definition example_runtime :: runtime where
  "example_runtime =
     \<lparr>decimal = ascii_decimal,
      int_max_str_digits = 4300,
      json_dumps = (\<lambda>d. concat (map fst d)),
      to_csv = (\<lambda>rows. concat (map (\<lambda>r. lit ''row'' @ [10]) rows))\<rparr>"

text \<open>
  An attribute dictionary with the keys \<open>square\<close> and \<open>area\<close>: the value of \<open>square\<close>
  has no digit, the value of \<open>area\<close> is \<open>85 m\<close> followed by the superscript two.
\<close>

definition square_metres :: pystr where
  "square_metres = lit ''85 m'' @ [178]"

definition attrs_square_area :: attr_dict where
  "attrs_square_area =
     [(lit ''square'', \<lparr>entry_value = lit ''n/a'', entry_label = lit ''n/a''\<rparr>),
      (lit ''area'', \<lparr>entry_value = square_metres, entry_label = square_metres\<rparr>)]"

definition attrs_type_twice :: attr_dict where
  "attrs_type_twice =
     [(lit ''type'', \<lparr>entry_value = lit ''2'', entry_label = lit ''Local''\<rparr>),
      (lit ''real_estate_type'', \<lparr>entry_value = lit ''1'', entry_label = lit ''Bureau''\<rparr>),
      (lit ''surface'', \<lparr>entry_value = lit ''120'', entry_label = lit ''120 m2''\<rparr>),
      (lit ''square'', \<lparr>entry_value = square_metres, entry_label = square_metres\<rparr>)]"

text \<open>
  Three listings: one of a private seller, without user object; the same with the user
  of a professional that has a profile; the same with an attribute collection that is
  \<open>None\<close>. And a time of normalisation.
\<close>

definition listing_private :: raw_listing where
  "listing_private =
     \<lparr>ad_id = PInt 1, subject = PStr (lit ''Bureau 3 pieces''),
      body = Some (lit ''Bureau lumineux en centre ville''), price = Some 1200,
      url = PStr (lit ''https://www.leboncoin.fr/ad/1''),
      first_publication_date = PStr (lit ''2025-01-01 10:00:00''),
      expiration_date = PNone, category_name = PStr (lit ''Bureaux & Commerces''),
      status = PStr (lit ''active''), favorites = None, location = None, user = None,
      has_phone = PBool False, images = None, attributes = Some []\<rparr>"

definition listing_pro :: raw_listing where
  "listing_pro =
     listing_private
       \<lparr>ad_id := PInt 2,
        user := Some \<lparr>user_name = PStr (lit ''Agence''), is_pro = Some True,
                      pro = Some \<lparr>online_store_name = Some (PStr (lit ''Agence du centre'')),
                                  siret = Some (PStr (lit ''12345678900011'')), siren = None,
                                  activity_sector = None, website_url = None\<rparr>\<rparr>\<rparr>"

definition listing_broken :: raw_listing where
  "listing_broken = listing_private\<lparr>ad_id := PInt 3, attributes := None\<rparr>"

definition noon :: pystr where
  "noon = lit ''2025-01-02T12:00:00''"

text \<open>A listing whose body has 600 characters.\<close>

definition listing_long :: raw_listing where
  "listing_long = listing_private\<lparr>ad_id := PInt 4, body := Some (replicate 600 120)\<rparr>"

text \<open>A listing without body, location, user, images and favourites.\<close>

definition listing_bare :: raw_listing where
  "listing_bare = listing_private\<lparr>ad_id := PInt 5, body := None\<rparr>"

text \<open>
  A scraper that holds the record of \<open>listing_broken\<close> and the record of
  \<open>listing_bare\<close>; an empty file system; a file system where \<open>data/out.csv\<close> exists.
\<close>

definition scraper_two :: scraper where
  "scraper_two =
     \<lparr>delay = 3,
      scraped_data = [process_ad example_runtime noon listing_broken,
                      process_ad example_runtime noon listing_bare]\<rparr>"

definition stamp :: pystr where
  "stamp = lit ''20250102_120000''"


definition fs_old :: filesystem where
  "fs_old = \<lparr>files = [lit ''data/out.csv'' \<mapsto> lit ''old''], dirs = {lit ''data''}\<rparr>"

text \<open>
  The arguments of a run with at most five pages and no further keyword argument, and
  of a run with at most one page where the caller passes \<open>page=9\<close> among the keyword
  arguments; a fresh scraper with a delay of three seconds; a clock that stands still.
\<close>

definition args_five :: search_args where
  "args_five =
     \<lparr>search_text = PNone, locations = PList [], price_range = None, surface_range = None,
      sort_order = PObj ''lbc.Sort.NEWEST'', owner_type = PObj ''lbc.OwnerType.ALL'',
      max_pages = 5, ads_per_page = 35, search_in_title_only = False, kwargs = []\<rparr>"

definition args_page9 :: search_args where
  "args_page9 = args_five\<lparr>max_pages := 1, kwargs := [(''page'', PInt 9)]\<rparr>"

definition scraper_new :: scraper where
  "scraper_new = \<lparr>delay = 3, scraped_data = []\<rparr>"

definition clock_noon :: "nat \<Rightarrow> pystr" where
  "clock_noon n = noon"

text \<open>
  Three clients, each counting its calls: one with two listings on the pages 1 and 2
  and none afterwards; one with two listings on page 1 that raises on every other page;
  one without any listing.
\<close>

definition client_three :: "nat client" where
  "client_three n ps =
     (if page_of ps = PInt 1 then
        (Inr \<lparr>result_ads = [listing_private, listing_pro], result_max_pages = 3\<rparr>, Suc n)
      else if page_of ps = PInt 2 then
        (Inr \<lparr>result_ads = [listing_long, listing_bare], result_max_pages = 3\<rparr>, Suc n)
      else (Inr \<lparr>result_ads = [], result_max_pages = 3\<rparr>, Suc n))"


definition client_empty :: "nat client" where
  "client_empty n ps = (Inr \<lparr>result_ads = [], result_max_pages = 1\<rparr>, Suc n)"

text \<open>
  The records and the trace of the run of \<open>client_three\<close>, and the trace of the run of
  \<open>client_fail\<close>.
\<close>

definition records_three :: "ad_record list" where
  "records_three =
     [process_ad example_runtime noon listing_private,
      process_ad example_runtime noon listing_pro,
      process_ad example_runtime noon listing_long,
      process_ad example_runtime noon listing_bare]"

definition trace_three :: "event list" where
  "trace_three =
     [Search (search_params args_five 1), Sleep 3, Search (search_params args_five 2), Sleep 3,
      Search (search_params args_five 3)]"


text \<open>
  A listing without price. Stand-ins for the floating-point reductions of pandas: the
  exact mean, and the upper median. Three runs: one with a price, one where the only
  record has no price, one with an error record only.
\<close>

definition listing_no_price :: raw_listing where
  "listing_no_price = listing_private\<lparr>ad_id := PInt 6, price := None\<rparr>"

definition example_ops :: float_ops where
  "example_ops =
     \<lparr>float_mean = (\<lambda>xs. sum_list xs / of_nat (length xs)),
      float_median = (\<lambda>xs. sort xs ! (length xs div 2))\<rparr>"

definition run_priced :: "(pystr \<times> raw_listing) list" where
  "run_priced = [(noon, listing_private), (noon, listing_broken), (noon, listing_no_price)]"

definition run_no_price :: "(pystr \<times> raw_listing) list" where
  "run_no_price = [(noon, listing_no_price)]"

definition run_errors :: "(pystr \<times> raw_listing) list" where
  "run_errors = [(noon, listing_broken)]"

section \<open>Lemmas on the normaliser and the export\<close>

lemma map_of_dict_update_other:
  "k \<notin> fst ` set e \<Longrightarrow> map_of (dict_update d e) k = map_of d k"
  unfolding dict_update_def
  by (induction e arbitrary: d) (auto simp: update_conv')

lemma build_ad_data_Some:
  assumes "attributes ad = Some attrs"
  shows "build_ad_data rt now ad =
     Inr (case user ad of
            None \<Rightarrow> base_record rt now ad (attributes_dict attrs)
          | Some u \<Rightarrow>
              (case pro u of
                 None \<Rightarrow> base_record rt now ad (attributes_dict attrs)
               | Some p \<Rightarrow> dict_update (base_record rt now ad (attributes_dict attrs))
                             (pro_fields p)))"
  using assms by (simp add: build_ad_data_def Let_def split: option.splits)

lemma pro_fields_keys: "fst ` set (pro_fields p) = set pro_keys"
  by (simp add: pro_fields_def pro_keys_def)

lemma process_ad_base_field:
  assumes "attributes ad = Some attrs" and "k \<notin> set pro_keys"
  shows "map_of (process_ad rt now ad) k = map_of (base_record rt now ad (attributes_dict attrs)) k"
  using assms
  by (simp add: process_ad_def build_ad_data_Some map_of_dict_update_other pro_fields_keys
      split: option.splits)

lemma process_ad_None:
  "attributes ad = None \<Longrightarrow>
   process_ad rt now ad = [(''id'', ad_id ad), (''error'', PStr not_iterable_message)]"
  by (simp add: process_ad_def build_ad_data_def)

lemma process_ad_no_error:
  assumes "attributes ad = Some attrs"
  shows "map_of (process_ad rt now ad) ''error'' = None"
proof -
  have "''error'' \<notin> set pro_keys" by (simp add: pro_keys_def)
  from process_ad_base_field [OF assms this] show ?thesis
    by (simp add: base_record_def)
qed













subsection \<open>The concrete inputs\<close>






lemma out_name: "export_filename ts (Some (lit ''out.csv'')) ct = lit ''data/out.csv''"
  by (simp add: export_filename_def data_dir_def path_join_def slash_def lit_def)

lemma example_records:
  "attributes listing_broken = None" "attributes listing_bare = Some []"
  "body listing_bare = None" "location listing_bare = None" "user listing_bare = None"
  "images listing_bare = None" "favorites listing_bare = None"
  "ad_id listing_broken = PInt 3" "ad_id listing_bare = PInt 5"
  "subject listing_broken = PStr (lit ''Bureau 3 pieces'')"
  by (simp_all add: listing_broken_def listing_bare_def listing_private_def)



section \<open>Lemmas on the collector\<close>

lemma searches_append: "searches (a @ b) = searches a @ searches b"
  by (induction a rule: searches.induct) simp_all

lemma scrape_loop_done:
  "\<not> page \<le> max_pages args \<Longrightarrow>
   scrape_loop rt clock client args dly page all_ads tr c = (Inr all_ads, tr, c)"
  by (subst scrape_loop.simps) simp

lemma scrape_loop_raise:
  "page \<le> max_pages args \<Longrightarrow> client c (search_params args page) = (Inl e, c') \<Longrightarrow>
   scrape_loop rt clock client args dly page all_ads tr c
     = (Inl e, tr @ [Search (search_params args page)], c')"
  by (subst scrape_loop.simps) simp

lemma scrape_loop_empty:
  "page \<le> max_pages args \<Longrightarrow> client c (search_params args page) = (Inr result, c') \<Longrightarrow>
   result_ads result = [] \<Longrightarrow>
   scrape_loop rt clock client args dly page all_ads tr c
     = (Inr all_ads, tr @ [Search (search_params args page)], c')"
  by (subst scrape_loop.simps) simp

lemma scrape_loop_last:
  "page \<le> max_pages args \<Longrightarrow> client c (search_params args page) = (Inr result, c') \<Longrightarrow>
   result_ads result \<noteq> [] \<Longrightarrow> result_max_pages result \<le> page \<Longrightarrow>
   scrape_loop rt clock client args dly page all_ads tr c
     = (Inr (process_page rt clock all_ads (result_ads result)),
        tr @ [Search (search_params args page)], c')"
  by (subst scrape_loop.simps) simp

lemma scrape_loop_next:
  "page \<le> max_pages args \<Longrightarrow> client c (search_params args page) = (Inr result, c') \<Longrightarrow>
   result_ads result \<noteq> [] \<Longrightarrow> page < result_max_pages result \<Longrightarrow>
   scrape_loop rt clock client args dly page all_ads tr c
     = scrape_loop rt clock client args dly (page + 1)
         (process_page rt clock all_ads (result_ads result))
         (tr @ [Search (search_params args page)] @ (if dly > 0 then [Sleep dly] else []))
         c'"
  by (subst scrape_loop.simps) simp

lemma scrape_loop_trace:
  "scrape_loop rt clock client args dly page all_ads tr c = (res, tr', c') \<Longrightarrow>
   \<exists>k. page - 1 \<le> k \<and> k \<le> max (max_pages args) (page - 1)
       \<and> searches tr' = searches tr @ map (search_params args) [page..k]"
proof (induction rt clock client args dly page all_ads tr c arbitrary: res tr' c'
       rule: scrape_loop.induct)
  case (1 rt clock client args dly page all_ads tr c)
  show ?case
  proof (cases "page \<le> max_pages args")
    case False
    with "1.prems" have "tr' = tr" by (simp add: scrape_loop_done)
    then have "searches tr' = searches tr @ map (search_params args) [page..page - 1]"
      by simp
    with False show ?thesis by (intro exI [of _ "page - 1"]) simp
  next
    case True
    obtain r c1 where cl: "client c (search_params args page) = (r, c1)"
      by (cases "client c (search_params args page)")
    have one: "tr' = tr @ [Search (search_params args page)] \<Longrightarrow> ?thesis"
    proof -
      assume "tr' = tr @ [Search (search_params args page)]"
      then have "searches tr' = searches tr @ map (search_params args) [page..page]"
        by (simp add: searches_append)
      with True show ?thesis by (intro exI [of _ page]) simp
    qed
    show ?thesis
    proof (cases r)
      case (Inl e)
      with "1.prems" True cl show ?thesis by (intro one) (simp add: scrape_loop_raise)
    next
      case (Inr result)
      show ?thesis
      proof (cases "result_ads result = []")
        case True
        with "1.prems" \<open>page \<le> max_pages args\<close> cl Inr show ?thesis
          by (intro one) (simp add: scrape_loop_empty)
      next
        case ne: False
        show ?thesis
        proof (cases "result_max_pages result \<le> page")
          case True
          with "1.prems" \<open>page \<le> max_pages args\<close> cl Inr ne show ?thesis
            by (intro one) (simp add: scrape_loop_last)
        next
          case False
          let ?tr1 = "tr @ [Search (search_params args page)] @ (if dly > 0 then [Sleep dly] else [])"
          from "1.prems" \<open>page \<le> max_pages args\<close> cl Inr ne False
          have rec: "scrape_loop rt clock client args dly (page + 1)
                 (process_page rt clock all_ads (result_ads result)) ?tr1 c1 = (res, tr', c')"
            by (simp add: scrape_loop_next)
          from "1.IH" [OF \<open>page \<le> max_pages args\<close> cl [symmetric] Inr ne False rec]
          obtain k where k: "page \<le> k" "k \<le> max (max_pages args) page"
            and s: "searches tr' = searches ?tr1 @ map (search_params args) [page + 1..k]"
            by auto
          have "searches ?tr1 = searches tr @ [search_params args page]"
            by (simp add: searches_append)
          with s k have "searches tr' = searches tr @ map (search_params args) [page..k]"
            by (simp add: upto_rec1 [of page k])
          with k \<open>page \<le> max_pages args\<close> show ?thesis
            by (intro exI [of _ k]) simp
        qed
      qed
    qed
  qed
qed


lemma map_of_with_range: "k \<noteq> k' \<Longrightarrow> map_of (with_range k' r ps) k = map_of ps k"
  by (auto simp: with_range_def update_conv' split: option.splits list.splits)

lemma search_params_page:
  assumes "map_of (kwargs args) ''page'' = None"
  shows "page_of (search_params args p) = PInt p"
proof -
  from assms have "''page'' \<notin> fst ` set (kwargs args)"
    by (simp add: map_of_eq_None_iff)
  then show ?thesis
    by (simp add: page_of_def search_params_def map_of_dict_update_other map_of_with_range)
qed

lemma search_trace:
  assumes "search_bureaux_commerces rt clock client args self c = (res, self', tr, c')"
  shows "\<exists>k. 0 \<le> k \<and> k \<le> max (max_pages args) 0
           \<and> searches tr = map (search_params args) [1..k]"
proof -
  obtain r where "scrape_loop rt clock client args (delay self) 1 [] [] c = (r, tr, c')"
    using assms
    by (cases "scrape_loop rt clock client args (delay self) 1 [] [] c")
       (auto simp: search_bureaux_commerces_def split: sum.splits)
  from scrape_loop_trace [OF this] show ?thesis by simp
qed

lemma kwargs_five: "map_of (kwargs args_five) ''page'' = None" "max_pages args_five = 5"
  by (simp_all add: args_five_def)

lemma page_five: "page_of (search_params args_five p) = PInt p"
  by (rule search_params_page) (rule kwargs_five)

lemma page9: "page_of (search_params args_page9 p) = PInt 9"
  by (simp add: page_of_def search_params_def with_range_def dict_update_def args_page9_def
      args_five_def)

lemma run_page9:
  "search_bureaux_commerces example_runtime clock_noon client_empty args_page9 scraper_new 0
   = (Inr [], scraper_new, [Search (search_params args_page9 1)], 1)"
proof -
  have m: "(1::int) \<le> max_pages args_page9" by (simp add: args_page9_def)
  have c: "client_empty 0 (search_params args_page9 1)
           = (Inr \<lparr>result_ads = [], result_max_pages = 1\<rparr>, 1)"
    by (simp add: client_empty_def)
  have "scrape_loop example_runtime clock_noon client_empty args_page9 (delay scraper_new) 1
          [] [] 0 = (Inr [], [] @ [Search (search_params args_page9 1)], 1)"
    by (rule scrape_loop_empty, rule m, rule c, simp)
  then show ?thesis
    by (simp add: search_bureaux_commerces_def scraper_new_def)
qed


lemma process_page_two:
  "process_page rt clock all_ads [a, b]
   = all_ads @ [process_ad rt (clock (length all_ads)) a,
                process_ad rt (clock (Suc (length all_ads))) b]"
  by simp

lemma three_pages_run:
  assumes mp: "max_pages args = 5"
    and p1: "client c0 (search_params args 1)
               = (Inr \<lparr>result_ads = [a1, a2], result_max_pages = m1\<rparr>, c1)"
    and p2: "client c1 (search_params args 2)
               = (Inr \<lparr>result_ads = [a3, a4], result_max_pages = m2\<rparr>, c2)"
    and p3: "client c2 (search_params args 3)
               = (Inr \<lparr>result_ads = [], result_max_pages = m3\<rparr>, c3)"
    and m1: "1 < m1" and m2: "2 < m2"
  shows "scrape_loop rt clock client args dly 1 [] [] c0
         = (Inr [process_ad rt (clock 0) a1, process_ad rt (clock 1) a2,
                 process_ad rt (clock 2) a3, process_ad rt (clock 3) a4],
            [Search (search_params args 1)] @ (if dly > 0 then [Sleep dly] else [])
            @ [Search (search_params args 2)] @ (if dly > 0 then [Sleep dly] else [])
            @ [Search (search_params args 3)],
            c3)"
proof -
  let ?sl = "if dly > 0 then [Sleep dly] else []"
  let ?r2 = "[process_ad rt (clock 0) a1, process_ad rt (clock 1) a2]"
  let ?r4 = "[process_ad rt (clock 0) a1, process_ad rt (clock 1) a2,
              process_ad rt (clock 2) a3, process_ad rt (clock 3) a4]"
  have s1: "scrape_loop rt clock client args dly 1 [] [] c0
            = scrape_loop rt clock client args dly 2 ?r2
                ([Search (search_params args 1)] @ ?sl) c1"
    using scrape_loop_next [where client = client and c = c0 and args = args and page = 1,
        OF _ p1, of rt clock dly "[]" "[]"] mp m1
    by (simp add: process_page_two)
  have s2: "scrape_loop rt clock client args dly 2 ?r2 ([Search (search_params args 1)] @ ?sl) c1
            = scrape_loop rt clock client args dly 3 ?r4
                ([Search (search_params args 1)] @ ?sl @ [Search (search_params args 2)] @ ?sl) c2"
    using scrape_loop_next [where client = client and c = c1 and args = args and page = 2,
        OF _ p2, of rt clock dly ?r2 "[Search (search_params args 1)] @ ?sl"] mp m2
    by (simp add: process_page_two eval_nat_numeral)
  have s3: "scrape_loop rt clock client args dly 3 ?r4
                ([Search (search_params args 1)] @ ?sl @ [Search (search_params args 2)] @ ?sl) c2
            = (Inr ?r4,
               ([Search (search_params args 1)] @ ?sl @ [Search (search_params args 2)] @ ?sl)
               @ [Search (search_params args 3)], c3)"
    using scrape_loop_empty [where client = client and c = c2 and args = args and page = 3,
        OF _ p3] mp
    by simp
  show ?thesis unfolding s1 s2 s3 by simp
qed


lemma client_three_pages:
  "client_three 0 (search_params args_five 1)
     = (Inr \<lparr>result_ads = [listing_private, listing_pro], result_max_pages = 3\<rparr>, 1)"
  "client_three 1 (search_params args_five 2)
     = (Inr \<lparr>result_ads = [listing_long, listing_bare], result_max_pages = 3\<rparr>, 2)"
  "client_three 2 (search_params args_five 3)
     = (Inr \<lparr>result_ads = [], result_max_pages = 3\<rparr>, 3)"
  by (simp_all add: client_three_def page_five)

lemma run_three:
  "search_bureaux_commerces example_runtime clock_noon client_three args_five scraper_new 0
   = (Inr records_three, scraper_new\<lparr>scraped_data := records_three\<rparr>, trace_three, 3)"
  unfolding search_bureaux_commerces_def
    three_pages_run [OF kwargs_five(2) client_three_pages, where rt = example_runtime
      and clock = clock_noon and dly = "delay scraper_new", simplified]
  by (simp add: scraper_new_def records_three_def trace_three_def clock_noon_def)






section \<open>Lemmas on the statistics and on the file of the export\<close>

lemma normalised_pair: "normalised (now, ad) = (attributes ad \<noteq> None)"
  by (simp add: normalised_def)

lemma process_ad_price:
  "map_of (process_ad rt now ad) ''price''
   = (if attributes ad = None then None else Some (opt_num (price ad)))"
proof (cases "attributes ad")
  case None
  then show ?thesis by (simp add: process_ad_None)
next
  case (Some attrs)
  have "''price'' \<notin> set pro_keys" by (simp add: pro_keys_def)
  from process_ad_base_field [OF Some this] Some show ?thesis
    by (simp add: base_record_def)
qed

lemma process_ad_seller_type:
  "map_of (process_ad rt now ad) ''seller_type''
   = (if attributes ad = None then None else Some (PStr (seller_type ad)))"
proof (cases "attributes ad")
  case None
  then show ?thesis by (simp add: process_ad_None)
next
  case (Some attrs)
  have "''seller_type'' \<notin> set pro_keys" by (simp add: pro_keys_def)
  from process_ad_base_field [OF Some this] Some show ?thesis
    by (simp add: base_record_def)
qed

lemma process_ad_error_iff:
  "map_of (process_ad rt now ad) ''error'' = None \<longleftrightarrow> attributes ad \<noteq> None"
  by (cases "attributes ad") (simp_all add: process_ad_None process_ad_no_error)

lemma numbers_price_column:
  "numbers (column (records_of rt xs) ''price'') = present_prices xs"
  by (induction xs)
     (auto simp: column_def records_of_def present_prices_def process_ad_price normalised_pair
        opt_num_def split: option.splits if_splits)

lemma has_price_column:
  "has_column (records_of rt xs) ''price'' = list_ex normalised xs"
  by (induction xs)
     (auto simp: has_column_def records_of_def process_ad_price normalised_pair list_ex_iff)

lemma has_seller_column:
  "has_column (records_of rt xs) ''seller_type'' = list_ex normalised xs"
  by (induction xs)
     (auto simp: has_column_def records_of_def process_ad_seller_type normalised_pair list_ex_iff)

lemma present_seller_column:
  "length (present (column (records_of rt xs) ''seller_type'')) = length (filter normalised xs)"
  by (induction xs)
     (auto simp: present_def column_def records_of_def process_ad_seller_type normalised_pair
        split: if_splits)

lemma csv_data_length:
  "length (csv_data inc (records_of rt xs)) = length (filter normalised xs)"
proof (induction xs)
  case Nil
  then show ?case by (simp add: records_of_def)
next
  case (Cons x xs)
  obtain now ad where x: "x = (now, ad)" by (cases x)
  from Cons have ih: "length (csv_data inc (map (\<lambda>(now, ad). process_ad rt now ad) xs))
                      = length (filter normalised xs)"
    by (simp add: records_of_def)
  show ?case
  proof (cases "attributes ad")
    case None
    then show ?thesis
      by (simp add: records_of_def x process_ad_None normalised_pair ih)
  next
    case (Some attrs)
    then show ?thesis
      by (simp add: records_of_def x process_ad_no_error normalised_pair ih)
  qed
qed

lemma value_counts_total: "sum_list (map snd (value_counts col)) = length (present col)"
proof -
  have "sum_list (map snd (value_counts col))
        = sum_list (map (count_list (present col)) (remdups (present col)))"
    by (simp add: value_counts_def comp_def)
  also have "\<dots> = sum (count_list (present col)) (set (present col))"
    by (simp add: sum_list_distinct_conv_sum_set)
  also have "\<dots> = length (present col)"
    by (rule sum_count_set) simp_all
  finally show ?thesis .
qed

lemma list_min_Min: "xs \<noteq> [] \<Longrightarrow> list_min xs = Min (set xs)"
  using Min.set_eq_fold [of "hd xs" "tl xs"] by (cases xs) (simp_all add: list_min_def)

lemma list_max_Max: "xs \<noteq> [] \<Longrightarrow> list_max xs = Max (set xs)"
  using Max.set_eq_fold [of "hd xs" "tl xs"] by (cases xs) (simp_all add: list_max_def)

lemma reduce_numbers:
  "reduce f col = (if numbers col = [] then NaN else Num (f (numbers col)))"
  by (simp add: reduce_def split: list.splits)

lemma present_prices_normalised: "present_prices xs \<noteq> [] \<Longrightarrow> list_ex normalised xs"
  by (induction xs) (auto simp: present_prices_def split: if_splits)

lemma records_of_Nil: "records_of rt xs = [] \<longleftrightarrow> xs = []"
  by (simp add: records_of_def)

lemma price_stats_of_run:
  "map_option price_stats (get_statistics ops \<lparr>delay = d, scraped_data = records_of rt xs\<rparr>)
   = (if xs = [] then None
      else if present_prices xs \<noteq> [] then
        Some \<lparr>stat_mean = Num (float_mean ops (present_prices xs)),
              stat_median = Num (float_median ops (present_prices xs)),
              stat_min = Num (Min (set (present_prices xs))),
              stat_max = Num (Max (set (present_prices xs)))\<rparr>
      else if list_ex normalised xs then Some (all_stats NaN)
      else Some (all_stats (Num 0)))"
proof (cases "xs = []")
  case True
  then show ?thesis by (simp add: get_statistics_def records_of_def)
next
  case ne: False
  show ?thesis
  proof (cases "present_prices xs = []")
    case True
    with ne show ?thesis
      by (simp add: get_statistics_def records_of_Nil Let_def has_price_column
          reduce_numbers numbers_price_column all_stats_def)
  next
    case False
    with ne present_prices_normalised [OF False] show ?thesis
      by (simp add: get_statistics_def records_of_Nil Let_def has_price_column
          reduce_numbers numbers_price_column list_min_Min list_max_Max)
  qed
qed

lemma seller_total_of_run:
  "map_option seller_total (get_statistics ops \<lparr>delay = d, scraped_data = records_of rt xs\<rparr>)
   = (if xs = [] then None else Some (length (csv_data inc (records_of rt xs))))"
proof (cases "xs = []")
  case True
  then show ?thesis by (simp add: get_statistics_def records_of_def)
next
  case False
  have z: "\<not> list_ex normalised xs \<Longrightarrow> filter normalised xs = []"
    by (auto simp: list_ex_iff filter_empty_conv)
  from False show ?thesis
    by (auto simp: get_statistics_def records_of_Nil Let_def seller_total_def
        has_seller_column value_counts_total present_seller_column csv_data_length z)
qed

lemma run_facts:
  "present_prices run_priced = [1200]" "run_priced \<noteq> []"
  "present_prices run_no_price = []" "list_ex normalised run_no_price" "run_no_price \<noteq> []"
  "present_prices run_errors = []" "\<not> list_ex normalised run_errors" "run_errors \<noteq> []"
  "length (filter normalised run_priced) = 2"
  by (simp_all add: present_prices_def run_priced_def run_no_price_def run_errors_def
      normalised_def listing_private_def listing_broken_def listing_no_price_def)


lemma files_makedirs: "files (makedirs fs p) = files fs"
  by (simp add: makedirs_def)

lemma save_to_csv_existing:
  assumes "scraped_data self \<noteq> []"
    and "files fs (export_filename ts filename city_tag) = Some old"
  shows "fst (save_to_csv rt ts filename city_tag inc self fs)
           = Inr (export_filename ts filename city_tag)
         \<and> files (snd (save_to_csv rt ts filename city_tag inc self fs))
           = (files fs)(export_filename ts filename city_tag
                \<mapsto> to_csv rt (csv_data inc (scraped_data self)))"
  using assms
  by (simp add: save_to_csv_def Let_def write_file_def files_makedirs)

lemma csv_two:
  "csv_data False (scraped_data scraper_two)
   = [AList.delete ''raw_attributes'' (process_ad example_runtime noon listing_bare)]"
  by (simp add: scraper_two_def process_ad_None process_ad_no_error example_records)

lemma old_file: "files fs_old (lit ''data/out.csv'') = Some (lit ''old'')"
  "scraped_data scraper_two \<noteq> []"
  by (simp_all add: fs_old_def scraper_two_def)

lemma new_content:
  "to_csv example_runtime (csv_data False (scraped_data scraper_two)) = lit ''row'' @ [10]"
  unfolding csv_two by (simp add: example_runtime_def)


section \<open>The field extractors return the first key that serves\<close>

lemma label_loop_find:
  "label_loop attrs keys =
     (case find (has_key attrs) keys of None \<Rightarrow> [] | Some k \<Rightarrow> label_of attrs k)"
  by (induction keys) (auto simp: has_key_def label_of_def split: option.splits)

lemma surface_loop_find:
  "surface_loop rt attrs keys =
     (case find (\<lambda>k. surface_of rt attrs k \<noteq> None) keys of
        None \<Rightarrow> None
      | Some k \<Rightarrow> surface_of rt attrs k)"
  by (induction keys) (auto simp: surface_of_def split: option.splits)

text \<open>
  What \<open>re_search_digits\<close> returns is the first run of decimal digits of the string: no
  digit stands before it, it is not empty, and it ends where the digits end.
\<close>

lemma re_search_digits_Some:
  assumes "re_search_digits rt s = Some m"
  shows "\<exists>pre post. s = pre @ m @ post \<and> m \<noteq> [] \<and> (\<forall>c \<in> set pre. \<not> is_decimal rt c)
           \<and> (\<forall>c \<in> set m. is_decimal rt c) \<and> (post = [] \<or> \<not> is_decimal rt (hd post))"
proof -
  let ?pre = "takeWhile (\<lambda>c. \<not> is_decimal rt c) s"
  let ?rest = "dropWhile (\<lambda>c. \<not> is_decimal rt c) s"
  let ?post = "dropWhile (is_decimal rt) ?rest"
  from assms have m: "m = takeWhile (is_decimal rt) ?rest" and ne: "m \<noteq> []"
    by (auto simp: re_search_digits_def split: list.splits)
  have "s = ?pre @ m @ ?post" by (simp add: m)
  moreover have "\<forall>c \<in> set ?pre. \<not> is_decimal rt c" by (auto dest: set_takeWhileD)
  moreover have "\<forall>c \<in> set m. is_decimal rt c" unfolding m by (auto dest: set_takeWhileD)
  moreover have "?post = [] \<or> \<not> is_decimal rt (hd ?post)"
    by (metis hd_dropWhile)
  ultimately show ?thesis using ne by blast
qed

lemma re_search_digits_None:
  "re_search_digits rt s = None \<longleftrightarrow> (\<forall>c \<in> set s. \<not> is_decimal rt c)"
proof
  assume "re_search_digits rt s = None"
  then have "takeWhile (is_decimal rt) (dropWhile (\<lambda>c. \<not> is_decimal rt c) s) = []"
    by (auto simp: re_search_digits_def split: list.splits)
  then have "dropWhile (\<lambda>c. \<not> is_decimal rt c) s = []"
    by (metis (mono_tags, lifting) hd_dropWhile takeWhile_eq_Nil_iff)
  then show "\<forall>c \<in> set s. \<not> is_decimal rt c"
    by (simp add: dropWhile_eq_Nil_conv)
next
  assume "\<forall>c \<in> set s. \<not> is_decimal rt c"
  then have d: "dropWhile (\<lambda>c. \<not> is_decimal rt c) s = []"
    by (simp add: dropWhile_eq_Nil_conv)
  show "re_search_digits rt s = None"
    unfolding re_search_digits_def d by simp
qed

lemma surface_example: "extract_surface example_runtime
    [(lit ''square'', \<lparr>entry_value = square_metres, entry_label = square_metres\<rparr>)] = Some 85"
  by (simp add: extract_surface_def surface_keys_def re_search_digits_def py_int_def
      is_decimal_def digit_value_def example_runtime_def ascii_decimal_def square_metres_def
      lit_def)

text \<open>
  C1, as the code has it. Each of the four label extractors returns the label of the
  first key of its list that the attribute collection has, whatever later keys it has
  too, and the empty string when it has none of them. The surface is taken from the keys
  \<open>square\<close>, \<open>surface\<close>, \<open>area\<close> in this order, from the first of them that yields an
  integer: a key that is present but whose value has no decimal digit (or whose digits
  \<open>int\<close> refuses) is passed over and the next key is tried. The integer is \<open>int\<close> of the
  first run of decimal digits of the value, and the surface is absent when no key
  yields one.
\<close>

theorem extractors_first_key:
  "extract_real_estate_type attrs =
     (case find (has_key attrs) [lit ''real_estate_type'', lit ''property_type'', lit ''type'']
      of None \<Rightarrow> [] | Some k \<Rightarrow> label_of attrs k)
   \<and> extract_energy_class attrs =
     (case find (has_key attrs) [lit ''energy_rate'', lit ''dpe'', lit ''energy_class'']
      of None \<Rightarrow> [] | Some k \<Rightarrow> label_of attrs k)
   \<and> extract_ges attrs =
     (case find (has_key attrs) [lit ''ges'', lit ''greenhouse_gas'', lit ''co2'']
      of None \<Rightarrow> [] | Some k \<Rightarrow> label_of attrs k)
   \<and> extract_furnished_status attrs =
     (case find (has_key attrs) [lit ''furnished'', lit ''meuble'', lit ''furnished_type'']
      of None \<Rightarrow> [] | Some k \<Rightarrow> label_of attrs k)
   \<and> extract_surface rt attrs =
     (case find (\<lambda>k. surface_of rt attrs k \<noteq> None) [lit ''square'', lit ''surface'', lit ''area'']
      of None \<Rightarrow> None | Some k \<Rightarrow> surface_of rt attrs k)"
  unfolding extract_real_estate_type_def extract_energy_class_def extract_ges_def
    extract_furnished_status_def extract_surface_def label_loop_find surface_loop_find
    type_keys_def energy_keys_def ges_keys_def furnished_keys_def surface_keys_def
  by simp

text \<open>
  At a collection that has \<open>type\<close> before \<open>real_estate_type\<close> and \<open>surface\<close> before
  \<open>square\<close>, the order of the lists decides, not the order of the collection.
\<close>

theorem extractors_first_key_witness:
  "extract_real_estate_type attrs_type_twice = lit ''Bureau''
   \<and> extract_energy_class attrs_type_twice = []
   \<and> extract_surface example_runtime attrs_type_twice = Some 85"
proof -
  have k: "has_key attrs_type_twice (lit ''real_estate_type'')"
    by (simp add: has_key_def attrs_type_twice_def lit_def)
  have e: "\<not> has_key attrs_type_twice (lit ''energy_rate'')"
      "\<not> has_key attrs_type_twice (lit ''dpe'')"
      "\<not> has_key attrs_type_twice (lit ''energy_class'')"
    by (simp_all add: has_key_def attrs_type_twice_def lit_def)
  have l: "label_of attrs_type_twice (lit ''real_estate_type'') = lit ''Bureau''"
    by (simp add: label_of_def attrs_type_twice_def lit_def)
  have s: "surface_of example_runtime attrs_type_twice (lit ''square'') = Some 85"
    by (simp add: surface_of_def attrs_type_twice_def re_search_digits_def py_int_def
        is_decimal_def digit_value_def example_runtime_def ascii_decimal_def
        square_metres_def lit_def)
  show ?thesis
    using extractors_first_key [of attrs_type_twice example_runtime] k e l s by simp
qed

text \<open>
  Against C1 as it is written: \<open>square\<close> is the first key of the list that the
  collection has and its value has no digit, so the surface should be absent; the code
  goes on to \<open>area\<close> and returns 85.
\<close>

theorem surface_passes_over_square:
  "map_of attrs_square_area (lit ''square'')
     = Some \<lparr>entry_value = lit ''n/a'', entry_label = lit ''n/a''\<rparr>
   \<and> re_search_digits example_runtime (lit ''n/a'') = None
   \<and> extract_surface example_runtime attrs_square_area = Some 85"
  by (simp add: attrs_square_area_def extract_surface_def surface_keys_def
      re_search_digits_def py_int_def is_decimal_def digit_value_def example_runtime_def
      ascii_decimal_def square_metres_def lit_def)

section \<open>The keys of a record\<close>




section \<open>An export onto an existing file\<close>

text \<open>
  C3, as the code has it. When the name of the export names a file that exists, the
  export writes to that very name: the call returns the name unchanged, the file holds
  the new content afterwards, and every other file is as before. Nothing is renamed and
  no file with a time stamp in its name appears; the content that the file had is lost.
\<close>

theorem save_to_csv_overwrites:
  assumes "scraped_data self \<noteq> []"
    and "files fs (export_filename ts filename city_tag) = Some old"
  shows "fst (save_to_csv rt ts filename city_tag inc self fs)
           = Inr (export_filename ts filename city_tag)
         \<and> files (snd (save_to_csv rt ts filename city_tag inc self fs))
           = (files fs)(export_filename ts filename city_tag
                \<mapsto> to_csv rt (csv_data inc (scraped_data self)))"
  using assms by (rule save_to_csv_existing)

theorem save_to_csv_overwrites_witness:
  "fst (save_to_csv example_runtime stamp (Some (lit ''out.csv'')) None False scraper_two fs_old)
     = Inr (lit ''data/out.csv'')
   \<and> files (snd (save_to_csv example_runtime stamp (Some (lit ''out.csv'')) None False
                   scraper_two fs_old))
     = (files fs_old)(lit ''data/out.csv'' \<mapsto> lit ''row'' @ [10])"
  using save_to_csv_overwrites [of scraper_two fs_old stamp "Some (lit ''out.csv'')" None
      "lit ''old''" example_runtime False] old_file
  unfolding out_name new_content by simp

text \<open>
  Against C3 as it is written: \<open>data/out.csv\<close> holds \<open>old\<close>; after the export to
  \<open>out.csv\<close> it holds the new rows, and it is still the only file.
\<close>

theorem export_replaces_existing_file:
  "files fs_old (lit ''data/out.csv'') = Some (lit ''old'')
   \<and> fst (save_to_csv example_runtime stamp (Some (lit ''out.csv'')) None False scraper_two
            fs_old) = Inr (lit ''data/out.csv'')
   \<and> files (snd (save_to_csv example_runtime stamp (Some (lit ''out.csv'')) None False
                   scraper_two fs_old)) (lit ''data/out.csv'') = Some (lit ''row'' @ [10])
   \<and> dom (files (snd (save_to_csv example_runtime stamp (Some (lit ''out.csv'')) None False
                        scraper_two fs_old))) = {lit ''data/out.csv''}"
proof -
  note e = save_to_csv_existing [of scraper_two fs_old stamp "Some (lit ''out.csv'')" None
      "lit ''old''" example_runtime False, unfolded out_name new_content, OF old_file(2) old_file(1)]
  have d: "dom (files fs_old) = {lit ''data/out.csv''}"
    by (simp add: fs_old_def)
  from e d old_file(1) show ?thesis by simp
qed

section \<open>The scenario of three pages\<close>

text \<open>
  C4. The client returns three pages to a run with a maximum of five pages: two
  listings on page 1, two on page 2, none on page 3. That the client is asked for page
  3 means that the last page it reported on the pages 1 and 2 lies beyond them, and the
  caller passes no \<open>page\<close> of its own. Then the run returns exactly four records, in
  the order of the pages and of the listings on each page, stores them in the scraper,
  and the pages it has requested are 1, 2 and 3: it stops on the empty page and never
  asks for page 4.
\<close>

theorem three_pages_scenario:
  assumes "max_pages args = 5" and "map_of (kwargs args) ''page'' = None"
    and "client c0 (search_params args 1)
           = (Inr \<lparr>result_ads = [a1, a2], result_max_pages = m1\<rparr>, c1)"
    and "client c1 (search_params args 2)
           = (Inr \<lparr>result_ads = [a3, a4], result_max_pages = m2\<rparr>, c2)"
    and "client c2 (search_params args 3)
           = (Inr \<lparr>result_ads = [], result_max_pages = m3\<rparr>, c3)"
    and "1 < m1" and "2 < m2"
  shows "\<exists>tr. search_bureaux_commerces rt clock client args self c0
           = (Inr [process_ad rt (clock 0) a1, process_ad rt (clock 1) a2,
                   process_ad rt (clock 2) a3, process_ad rt (clock 3) a4],
              self\<lparr>scraped_data :=
                     [process_ad rt (clock 0) a1, process_ad rt (clock 1) a2,
                      process_ad rt (clock 2) a3, process_ad rt (clock 3) a4]\<rparr>,
              tr, c3)
           \<and> requested_pages tr = [PInt 1, PInt 2, PInt 3]"
  unfolding search_bureaux_commerces_def
    three_pages_run [OF assms(1) assms(3) assms(4) assms(5) assms(6) assms(7)]
  by (simp add: requested_pages_def searches_append search_params_page [OF assms(2)])

theorem three_pages_scenario_witness:
  "fst (search_bureaux_commerces example_runtime clock_noon client_three args_five scraper_new 0)
     = Inr records_three
   \<and> length records_three = 4
   \<and> requested_pages (fst (snd (snd (search_bureaux_commerces example_runtime clock_noon
        client_three args_five scraper_new 0)))) = [PInt 1, PInt 2, PInt 3]"
  using three_pages_scenario [OF kwargs_five(2) kwargs_five(1) client_three_pages,
      where rt = example_runtime and clock = clock_noon and self = scraper_new]
  by (auto simp: records_three_def clock_noon_def)

section \<open>The bound on the pages\<close>

text \<open>
  C5, as the code has it. A run with a maximum of \<open>N\<close> pages makes at most \<open>N\<close> calls
  to \<open>search\<close>, whatever last page the client reports. The page index of every call
  lies between 1 and \<open>N\<close> when the keyword arguments of the caller do not contain
  \<open>page\<close>; a \<open>page\<close> among them replaces the index of the loop in every call.
\<close>

theorem pages_within_max_pages:
  assumes "search_bureaux_commerces rt clock client args self c = (res, self', tr, c')"
  shows "int (length (searches tr)) \<le> max (max_pages args) 0
         \<and> (map_of (kwargs args) ''page'' = None \<longrightarrow>
              (\<forall>v \<in> set (requested_pages tr). \<exists>p. v = PInt p \<and> 1 \<le> p \<and> p \<le> max_pages args))"
proof -
  from search_trace [OF assms] obtain k where k: "0 \<le> k" "k \<le> max (max_pages args) 0"
    and s: "searches tr = map (search_params args) [1..k]" by blast
  have "int (length (searches tr)) \<le> max (max_pages args) 0"
    using k by (simp add: s)
  moreover have "\<forall>v \<in> set (requested_pages tr). \<exists>p. v = PInt p \<and> 1 \<le> p \<and> p \<le> max_pages args"
    if "map_of (kwargs args) ''page'' = None"
  proof -
    have "requested_pages tr = map PInt [1..k]"
      by (simp add: requested_pages_def s search_params_page [OF that])
    with k show ?thesis by auto
  qed
  ultimately show ?thesis by blast
qed

theorem pages_within_max_pages_witness:
  "int (length (searches trace_three)) \<le> max (max_pages args_five) 0
   \<and> requested_pages trace_three = [PInt 1, PInt 2, PInt 3]
   \<and> (\<exists>p. PInt 3 = PInt p \<and> 1 \<le> p \<and> p \<le> max_pages args_five)"
proof -
  have r: "requested_pages trace_three = [PInt 1, PInt 2, PInt 3]"
    by (simp add: requested_pages_def trace_three_def page_five)
  from pages_within_max_pages [OF run_three] kwargs_five(1)
  have "int (length (searches trace_three)) \<le> max (max_pages args_five) 0"
    and "\<forall>v \<in> set (requested_pages trace_three).
           \<exists>p. v = PInt p \<and> 1 \<le> p \<and> p \<le> max_pages args_five"
    by blast+
  with r show ?thesis by simp
qed

text \<open>
  Against C5 as it is written: with a maximum of one page and \<open>page=9\<close> among the
  keyword arguments, the one call of the run asks for page 9.
\<close>

theorem kwargs_page_overrides:
  "max_pages args_page9 = 1
   \<and> requested_pages (fst (snd (snd (search_bureaux_commerces example_runtime clock_noon
         client_empty args_page9 scraper_new 0)))) = [PInt 9]"
  by (simp add: run_page9 requested_pages_def page9) (simp add: args_page9_def)

section \<open>Normalisation never raises\<close>




section \<open>An error of the client\<close>




section \<open>The export of an empty sequence\<close>

text \<open>
  C8. An export on an empty record sequence fails with the "nothing to export"
  condition, the \<open>ValueError\<close> of \<open>save_to_csv\<close>, and creates no file: the file system
  after the call is the file system before it, whatever the file name, the city tag and
  the flag are.
\<close>

theorem save_to_csv_empty:
  "save_to_csv rt timestamp filename city_tag include_raw_attributes
     (self\<lparr>scraped_data := []\<rparr>) fs = (Inl (ValueError no_data_message), fs)"
  by (simp add: save_to_csv_def)

theorem save_to_csv_empty_witness:
  "save_to_csv example_runtime stamp None None False scraper_new fs_old
   = (Inl (ValueError no_data_message), fs_old)"
proof -
  have "scraper_new\<lparr>scraped_data := []\<rparr> = scraper_new"
    by (simp add: scraper_new_def)
  with save_to_csv_empty [of example_runtime stamp None None False scraper_new fs_old]
  show ?thesis by simp
qed

section \<open>The statistics of a run\<close>

text \<open>
  C9, as the code has it. For the records of a run that is not empty, the mean, the
  median, the minimum and the maximum of the price are computed over the prices that
  are present and over nothing else: a record without price, and an error record, have
  no part in them. When no record has a price, the four statistics are \<open>NaN\<close> if some
  record was normalised (the column \<open>price\<close> exists and pandas reduces a column without
  values to \<open>NaN\<close>), and zero only if every record is an error record (no column
  \<open>price\<close>). The counts of the seller types sum to the number of records without
  error marker, which are the records that the export writes. For an empty run
  \<open>get_statistics\<close> returns the empty dictionary.
\<close>

theorem statistics_of_run:
  "map_option price_stats (get_statistics ops \<lparr>delay = d, scraped_data = records_of rt xs\<rparr>)
   = (if xs = [] then None
      else if present_prices xs \<noteq> [] then
        Some \<lparr>stat_mean = Num (float_mean ops (present_prices xs)),
              stat_median = Num (float_median ops (present_prices xs)),
              stat_min = Num (Min (set (present_prices xs))),
              stat_max = Num (Max (set (present_prices xs)))\<rparr>
      else if list_ex normalised xs then Some (all_stats NaN)
      else Some (all_stats (Num 0)))
   \<and> map_option seller_total
         (get_statistics ops \<lparr>delay = d, scraped_data = records_of rt xs\<rparr>)
     = (if xs = [] then None else Some (length (csv_data inc (records_of rt xs))))"
  using price_stats_of_run seller_total_of_run by (rule conjI)

theorem statistics_of_run_witness:
  "map_option price_stats
     (get_statistics example_ops \<lparr>delay = 3, scraped_data = records_of example_runtime run_priced\<rparr>)
   = Some (all_stats (Num 1200))
   \<and> map_option seller_total
     (get_statistics example_ops \<lparr>delay = 3, scraped_data = records_of example_runtime run_priced\<rparr>)
   = Some 2
   \<and> length (csv_data False (records_of example_runtime run_priced)) = 2
   \<and> map_option price_stats
     (get_statistics example_ops \<lparr>delay = 3, scraped_data = records_of example_runtime run_no_price\<rparr>)
   = Some (all_stats NaN)
   \<and> map_option price_stats
     (get_statistics example_ops \<lparr>delay = 3, scraped_data = records_of example_runtime run_errors\<rparr>)
   = Some (all_stats (Num 0))"
  using statistics_of_run [of example_ops 3 example_runtime run_priced False]
    statistics_of_run [of example_ops 3 example_runtime run_no_price False]
    statistics_of_run [of example_ops 3 example_runtime run_errors False]
    csv_data_length [of False example_runtime run_priced]
  by (simp add: run_facts all_stats_def example_ops_def)

text \<open>
  Against C9 as it is written: the one record of the run has no price, and the price
  statistics are \<open>NaN\<close>, not zero.
\<close>

theorem no_price_gives_nan:
  "price listing_no_price = None
   \<and> map_option price_stats
       (get_statistics example_ops
          \<lparr>delay = 3, scraped_data = [process_ad example_runtime noon listing_no_price]\<rparr>)
     = Some \<lparr>stat_mean = NaN, stat_median = NaN, stat_min = NaN, stat_max = NaN\<rparr>
   \<and> NaN \<noteq> Num 0"
proof -
  have r: "records_of example_runtime run_no_price
           = [process_ad example_runtime noon listing_no_price]"
    by (simp add: records_of_def run_no_price_def)
  have p: "price listing_no_price = None" by (simp add: listing_no_price_def)
  from price_stats_of_run [of example_ops 3 example_runtime run_no_price] p
  show ?thesis unfolding r by (simp add: run_facts all_stats_def)
qed

section \<open>The description\<close>




end
